theory Spec2Isabelle
  imports Complex_Main
begin

section \<open>JavaScript values\<close>

text \<open>
  The storefront is written in JavaScript (React). Its cart is an array of product
  objects that travels through \<open>localStorage\<close> as JSON text, so the model starts with
  the values the code handles and the language operations it applies to them.

  Strings are sequences of bytes (the UTF-8 encoding of the text); the white space
  recognised by \<open>trim\<close>, by the regular expressions and by the number conversion is
  the ASCII white space. JavaScript numbers are IEEE doubles; the model keeps the
  integers (exact in a double up to \<open>2^53\<close>) together with \<open>NaN\<close>. A numeric string
  or JSON literal in another notation (fraction, exponent, radix prefix,
  \<open>Infinity\<close>) denotes a number outside this model and is read like a non-numeric one.
\<close>

definition code :: "char \<Rightarrow> nat" where
  "code c = of_char c"

definition is_digit :: "char \<Rightarrow> bool" where
  "is_digit c = (48 \<le> code c \<and> code c \<le> 57)"

definition digit_val :: "char \<Rightarrow> nat" where
  "digit_val c = code c - 48"

definition digit_chr :: "nat \<Rightarrow> char" where
  "digit_chr d = char_of (48 + d)"

fun show_nat :: "nat \<Rightarrow> string" where
  "show_nat n = (if n < 10 then [digit_chr n] else show_nat (n div 10) @ [digit_chr (n mod 10)])"

declare show_nat.simps [simp del]

definition show_int :: "int \<Rightarrow> string" where
  "show_int i = (if i < 0 then CHR ''-'' # show_nat (nat (- i)) else show_nat (nat i))"

definition read_nat :: "string \<Rightarrow> nat" where
  "read_nat ds = foldl (\<lambda>n c. 10 * n + digit_val c) 0 ds"

definition is_space :: "char \<Rightarrow> bool" where
  "is_space c = (code c = 32 \<or> (9 \<le> code c \<and> code c \<le> 13))"

text \<open>\<open>String.prototype.trim\<close>.\<close>

definition trim :: "string \<Rightarrow> string" where
  "trim s = rev (dropWhile is_space (rev (dropWhile is_space s)))"

text \<open>\<open>Array.prototype.join\<close> on strings.\<close>

fun join :: "string \<Rightarrow> string list \<Rightarrow> string" where
  "join sep [] = []"
| "join sep [x] = x"
| "join sep (x # y # ys) = x @ sep @ join sep (y # ys)"

datatype jsnum = NaN | Num int

datatype jsval =
    JUndefined
  | JNull
  | JBool bool
  | JNumber jsnum
  | JString string
  | JArray "jsval list"
  | JObject "(string \<times> jsval) list"

text \<open>
  An object is the list of its own properties in insertion order, each name once.
  Writing a property replaces the value of an existing name in place and appends a
  new name at the end.
\<close>

fun set_prop :: "string \<Rightarrow> jsval \<Rightarrow> (string \<times> jsval) list \<Rightarrow> (string \<times> jsval) list" where
  "set_prop k v [] = [(k, v)]"
| "set_prop k v (p # ps) = (if fst p = k then (k, v) # ps else p # set_prop k v ps)"

datatype error = TypeError

text \<open>
  Reading a property \<open>v.k\<close>, for the names the code reads (\<open>price\<close>, \<open>quantity\<close>,
  \<open>name\<close>), none of which a prototype defines: \<open>undefined\<close> and \<open>null\<close> throw a
  \<open>TypeError\<close>, an object yields its property or \<open>undefined\<close>, every other value
  yields \<open>undefined\<close>.
\<close>

fun get_prop :: "jsval \<Rightarrow> string \<Rightarrow> error + jsval" where
  "get_prop JUndefined k = Inl TypeError"
| "get_prop JNull k = Inl TypeError"
| "get_prop (JObject ps) k = Inr (case map_of ps k of None \<Rightarrow> JUndefined | Some x \<Rightarrow> x)"
| "get_prop v k = Inr JUndefined"

text \<open>\<open>ToBoolean\<close>: the falsy values are \<open>undefined\<close>, \<open>null\<close>, \<open>false\<close>, \<open>0\<close>, \<open>NaN\<close>, \<open>""\<close>.\<close>

fun truthy :: "jsval \<Rightarrow> bool" where
  "truthy JUndefined = False"
| "truthy JNull = False"
| "truthy (JBool b) = b"
| "truthy (JNumber NaN) = False"
| "truthy (JNumber (Num n)) = (n \<noteq> 0)"
| "truthy (JString s) = (s \<noteq> [])"
| "truthy (JArray vs) = True"
| "truthy (JObject ps) = True"

text \<open>\<open>ToString\<close>; an array joins its elements with commas, \<open>undefined\<close> and \<open>null\<close>
  elements giving the empty string.\<close>

fun to_str :: "jsval \<Rightarrow> string" where
  "to_str JUndefined = ''undefined''"
| "to_str JNull = ''null''"
| "to_str (JBool b) = (if b then ''true'' else ''false'')"
| "to_str (JNumber NaN) = ''NaN''"
| "to_str (JNumber (Num n)) = show_int n"
| "to_str (JString s) = s"
| "to_str (JArray vs) =
     join '','' (map (\<lambda>v. if v = JUndefined \<or> v = JNull then [] else to_str v) vs)"
| "to_str (JObject ps) = ''[object Object]''"

text \<open>\<open>StringToNumber\<close> on the decimal integer literals: surrounding white space is
  dropped, the empty string is \<open>0\<close>, a sign may precede the digits.\<close>

definition str_to_num :: "string \<Rightarrow> jsnum" where
  "str_to_num s =
     (let t = trim s;
          neg = (case t of c # _ \<Rightarrow> c = CHR ''-'' | [] \<Rightarrow> False);
          signed = (case t of c # _ \<Rightarrow> c = CHR ''-'' \<or> c = CHR ''+'' | [] \<Rightarrow> False);
          ds = (if signed then tl t else t)
      in if t = [] then Num 0
         else if ds \<noteq> [] \<and> list_all is_digit ds
           then Num (if neg then - int (read_nat ds) else int (read_nat ds))
         else NaN)"

text \<open>\<open>Number(v)\<close>, that is \<open>ToNumber\<close>; an array or object goes through its string.\<close>

fun Number_js :: "jsval \<Rightarrow> jsnum" where
  "Number_js JUndefined = NaN"
| "Number_js JNull = Num 0"
| "Number_js (JBool b) = Num (if b then 1 else 0)"
| "Number_js (JNumber n) = n"
| "Number_js (JString s) = str_to_num s"
| "Number_js (JArray vs) = str_to_num (to_str (JArray vs))"
| "Number_js (JObject ps) = str_to_num (to_str (JObject ps))"


fun js_mul :: "jsnum \<Rightarrow> jsnum \<Rightarrow> jsnum" where
  "js_mul (Num a) (Num b) = Num (a * b)"
| "js_mul x y = NaN"



section \<open>JSON\<close>

text \<open>
  \<open>JSON.stringify\<close> in its compact form. Inside an array \<open>undefined\<close> and \<open>NaN\<close>
  are written \<open>null\<close>; a property whose value is \<open>undefined\<close> is left out; a string
  is quoted with the escapes of the standard. At the top level \<open>undefined\<close> has no
  JSON text.
\<close>

definition hex_chr :: "nat \<Rightarrow> char" where
  "hex_chr d = (if d < 10 then char_of (48 + d) else char_of (87 + d))"

definition escape_char :: "char \<Rightarrow> string" where
  "escape_char c =
    (if c = CHR 0x22 then [CHR 0x5C, CHR 0x22]
     else if c = CHR 0x5C then [CHR 0x5C, CHR 0x5C]
     else if code c = 8 then [CHR 0x5C, CHR ''b'']
     else if code c = 12 then [CHR 0x5C, CHR ''f'']
     else if code c = 10 then [CHR 0x5C, CHR ''n'']
     else if code c = 13 then [CHR 0x5C, CHR ''r'']
     else if code c = 9 then [CHR 0x5C, CHR ''t'']
     else if code c < 32 then
       [CHR 0x5C, CHR ''u'', CHR ''0'', CHR ''0'', hex_chr (code c div 16), hex_chr (code c mod 16)]
     else [c])"

definition quote :: "string \<Rightarrow> string" where
  "quote s = CHR 0x22 # concat (map escape_char s) @ [CHR 0x22]"

fun ser :: "jsval \<Rightarrow> string" where
  "ser JUndefined = ''null''"
| "ser JNull = ''null''"
| "ser (JBool b) = (if b then ''true'' else ''false'')"
| "ser (JNumber NaN) = ''null''"
| "ser (JNumber (Num n)) = show_int n"
| "ser (JString s) = quote s"
| "ser (JArray vs) = ''['' @ join '','' (map ser vs) @ '']''"
| "ser (JObject kvs) =
     ''{'' @ join '','' (map (\<lambda>kv. quote (fst kv) @ '':'' @ ser (snd kv))
                          (filter (\<lambda>kv. snd kv \<noteq> JUndefined) kvs)) @ ''}''"

definition JSON_stringify :: "jsval \<Rightarrow> string option" where
  "JSON_stringify v = (if v = JUndefined then None else Some (ser v))"

text \<open>
  \<open>JSON.parse\<close>: a recursive-descent reader of the JSON grammar; \<open>None\<close> is the
  \<open>SyntaxError\<close>. The recursion on nested values is bounded by a counter that
  \<open>JSON_parse\<close> starts at twice the length of the text plus two; lemma
  \<open>JSON_parse_fuel\<close> below shows that no text needs more. A repeated property name
  keeps its first position and its last value. Number literals are the integers (see
  above); an escaped surrogate half has no UTF-8 bytes and is refused.
\<close>

definition is_json_ws :: "char \<Rightarrow> bool" where
  "is_json_ws c = (code c = 32 \<or> code c = 9 \<or> code c = 10 \<or> code c = 13)"

definition skip_ws :: "string \<Rightarrow> string" where
  "skip_ws s = dropWhile is_json_ws s"

definition hex_val :: "char \<Rightarrow> nat option" where
  "hex_val c =
     (if 48 \<le> code c \<and> code c \<le> 57 then Some (code c - 48)
      else if 97 \<le> code c \<and> code c \<le> 102 then Some (code c - 87)
      else if 65 \<le> code c \<and> code c \<le> 70 then Some (code c - 55)
      else None)"

definition hex4 :: "char \<Rightarrow> char \<Rightarrow> char \<Rightarrow> char \<Rightarrow> nat option" where
  "hex4 a b c d =
     (case (hex_val a, hex_val b, hex_val c, hex_val d) of
        (Some w, Some x, Some y, Some z) \<Rightarrow> Some (((w * 16 + x) * 16 + y) * 16 + z)
      | _ \<Rightarrow> None)"

definition unescape :: "char \<Rightarrow> char option" where
  "unescape e =
     (if e = CHR 0x22 then Some (CHR 0x22)
      else if e = CHR 0x5C then Some (CHR 0x5C)
      else if e = CHR ''/'' then Some (CHR ''/'')
      else if e = CHR ''b'' then Some (CHR 0x08)
      else if e = CHR ''f'' then Some (CHR 0x0C)
      else if e = CHR ''n'' then Some (CHR 0x0A)
      else if e = CHR ''r'' then Some (CHR 0x0D)
      else if e = CHR ''t'' then Some (CHR 0x09)
      else None)"

text \<open>The bytes of a four-digit unicode escape.\<close>

definition utf8 :: "nat \<Rightarrow> string option" where
  "utf8 n =
     (if n < 128 then Some [char_of n]
      else if n < 2048 then Some [char_of (192 + n div 64), char_of (128 + n mod 64)]
      else if 55296 \<le> n \<and> n < 57344 then None
      else Some [char_of (224 + n div 4096), char_of (128 + n div 64 mod 64),
                 char_of (128 + n mod 64)])"

definition cons_fst :: "'a \<Rightarrow> ('a list \<times> 'b) option \<Rightarrow> ('a list \<times> 'b) option" where
  "cons_fst x r = (case r of None \<Rightarrow> None | Some (xs, rest) \<Rightarrow> Some (x # xs, rest))"

definition app_fst :: "'a list \<Rightarrow> ('a list \<times> 'b) option \<Rightarrow> ('a list \<times> 'b) option" where
  "app_fst ys r = (case r of None \<Rightarrow> None | Some (xs, rest) \<Rightarrow> Some (ys @ xs, rest))"

fun lex_string :: "string \<Rightarrow> (string \<times> string) option" where
  "lex_string [] = None"
| "lex_string (c # cs) =
     (if c = CHR 0x22 then Some ([], cs)
      else if c = CHR 0x5C then
        (case cs of
           [] \<Rightarrow> None
         | e # cs1 \<Rightarrow>
             if e = CHR ''u'' then
               (case cs1 of
                  h1 # h2 # h3 # h4 # cs2 \<Rightarrow>
                    (case hex4 h1 h2 h3 h4 of
                       None \<Rightarrow> None
                     | Some n \<Rightarrow>
                         (case utf8 n of
                            None \<Rightarrow> None
                          | Some bytes \<Rightarrow> app_fst bytes (lex_string cs2)))
                | _ \<Rightarrow> None)
             else
               (case unescape e of
                  None \<Rightarrow> None
                | Some ch \<Rightarrow> cons_fst ch (lex_string cs1)))
      else if code c < 32 then None
      else cons_fst c (lex_string cs))"

definition lex_number :: "string \<Rightarrow> (int \<times> string) option" where
  "lex_number s =
     (let neg = (case s of c # _ \<Rightarrow> c = CHR ''-'' | [] \<Rightarrow> False);
          s1 = (if neg then tl s else s);
          ds = takeWhile is_digit s1;
          rest = dropWhile is_digit s1
      in if ds = [] then None
         else if hd ds = CHR ''0'' \<and> length ds > 1 then None
         else if (case rest of c # _ \<Rightarrow> c = CHR ''.'' \<or> c = CHR ''e'' \<or> c = CHR ''E'' | [] \<Rightarrow> False)
           then None
         else Some (if neg then - int (read_nat ds) else int (read_nat ds), rest))"

definition mk_object :: "(string \<times> jsval) list \<Rightarrow> jsval" where
  "mk_object members = JObject (foldl (\<lambda>ps kv. set_prop (fst kv) (snd kv) ps) [] members)"

definition strip_prefix :: "string \<Rightarrow> string \<Rightarrow> string option" where
  "strip_prefix p s = (if take (length p) s = p then Some (drop (length p) s) else None)"

fun parse_value :: "nat \<Rightarrow> string \<Rightarrow> (jsval \<times> string) option"
and parse_elements :: "nat \<Rightarrow> string \<Rightarrow> (jsval list \<times> string) option"
and parse_members :: "nat \<Rightarrow> string \<Rightarrow> ((string \<times> jsval) list \<times> string) option"
where
  "parse_value 0 s = None"
| "parse_value (Suc n) s =
     (case skip_ws s of
        [] \<Rightarrow> None
      | c # cs \<Rightarrow>
          if c = CHR ''['' then
            (case skip_ws cs of
               [] \<Rightarrow> None
             | d # ds \<Rightarrow>
                 if d = CHR '']'' then Some (JArray [], ds)
                 else (case parse_elements n cs of
                         None \<Rightarrow> None
                       | Some (vs, rest) \<Rightarrow> Some (JArray vs, rest)))
          else if c = CHR ''{'' then
            (case skip_ws cs of
               [] \<Rightarrow> None
             | d # ds \<Rightarrow>
                 if d = CHR ''}'' then Some (JObject [], ds)
                 else (case parse_members n cs of
                         None \<Rightarrow> None
                       | Some (ms, rest) \<Rightarrow> Some (mk_object ms, rest)))
          else if c = CHR 0x22 then
            (case lex_string cs of
               None \<Rightarrow> None
             | Some (str, rest) \<Rightarrow> Some (JString str, rest))
          else if c = CHR ''n'' then
            (case strip_prefix ''ull'' cs of None \<Rightarrow> None | Some rest \<Rightarrow> Some (JNull, rest))
          else if c = CHR ''t'' then
            (case strip_prefix ''rue'' cs of None \<Rightarrow> None | Some rest \<Rightarrow> Some (JBool True, rest))
          else if c = CHR ''f'' then
            (case strip_prefix ''alse'' cs of None \<Rightarrow> None | Some rest \<Rightarrow> Some (JBool False, rest))
          else
            (case lex_number (c # cs) of
               None \<Rightarrow> None
             | Some (i, rest) \<Rightarrow> Some (JNumber (Num i), rest)))"
| "parse_elements 0 s = None"
| "parse_elements (Suc n) s =
     (case parse_value n s of
        None \<Rightarrow> None
      | Some (v, rest) \<Rightarrow>
          (case skip_ws rest of
             [] \<Rightarrow> None
           | c # cs \<Rightarrow>
               if c = CHR '','' then cons_fst v (parse_elements n cs)
               else if c = CHR '']'' then Some ([v], cs)
               else None))"
| "parse_members 0 s = None"
| "parse_members (Suc n) s =
     (case skip_ws s of
        [] \<Rightarrow> None
      | q # s1 \<Rightarrow>
          if q \<noteq> CHR 0x22 then None
          else
            (case lex_string s1 of
               None \<Rightarrow> None
             | Some (k, s2) \<Rightarrow>
                 (case skip_ws s2 of
                    [] \<Rightarrow> None
                  | colon # s3 \<Rightarrow>
                      if colon \<noteq> CHR '':'' then None
                      else
                        (case parse_value n s3 of
                           None \<Rightarrow> None
                         | Some (v, rest) \<Rightarrow>
                             (case skip_ws rest of
                                [] \<Rightarrow> None
                              | c # cs \<Rightarrow>
                                  if c = CHR '','' then cons_fst (k, v) (parse_members n cs)
                                  else if c = CHR ''}'' then Some ([(k, v)], cs)
                                  else None)))))"

definition JSON_parse :: "string \<Rightarrow> jsval option" where
  "JSON_parse s =
     (case parse_value (2 * length s + 2) s of
        None \<Rightarrow> None
      | Some (v, rest) \<Rightarrow> if skip_ws rest = [] then Some v else None)"



definition delimited :: "string \<Rightarrow> bool" where
  "delimited rest = (case rest of [] \<Rightarrow> True
      | c # _ \<Rightarrow> c = CHR '','' \<or> c = CHR '']'' \<or> c = CHR ''}'')"



section \<open>Browser globals\<close>

text \<open>
  \<open>localStorage\<close> maps keys to strings. The record also keeps, oldest first, the
  effects the page has had on its surroundings: writes to the storage, events
  dispatched on \<open>window\<close> and requests sent with \<open>axios.post\<close>. Notification
  identifiers are \<open>Date.now() + Math.random()\<close>; \<open>id_source\<close> gives the value of
  the k-th such reading.
\<close>

datatype effect =
    SetItem string string
  | Clear
  | Dispatch string
  | PostOrder string string string string string string "jsval list"
  | PostContact string string string string

record browser =
  localStorage :: "string \<rightharpoonup> string"
  effects :: "effect list"
  id_source :: "nat \<Rightarrow> real"
  ids_drawn :: nat

definition getItem :: "string \<Rightarrow> browser \<Rightarrow> string option" where
  "getItem k b = localStorage b k"

definition setItem :: "string \<Rightarrow> string \<Rightarrow> browser \<Rightarrow> browser" where
  "setItem k v b = b\<lparr>localStorage := (localStorage b)(k \<mapsto> v), effects := effects b @ [SetItem k v]\<rparr>"

definition clear :: "browser \<Rightarrow> browser" where
  "clear b = b\<lparr>localStorage := Map.empty, effects := effects b @ [Clear]\<rparr>"

definition fresh_id :: "browser \<Rightarrow> real \<times> browser" where
  "fresh_id b = (id_source b (ids_drawn b), b\<lparr>ids_drawn := Suc (ids_drawn b)\<rparr>)"

text \<open>The string that \<open>setItem\<close> stores for the result of \<open>JSON.stringify\<close>.\<close>

definition stored_text :: "jsval \<Rightarrow> string" where
  "stored_text v = (case JSON_stringify v of None \<Rightarrow> ''undefined'' | Some s \<Rightarrow> s)"


section \<open>Notification scheduler (\<open>useNotifications\<close>)\<close>

text \<open>
  \<^verbatim>\<open>const id = Date.now() + Math.random();
const newNotification = { id, message, type, duration };
setNotifications(prev => [...prev, newNotification]);\<close>

  The parameters \<open>type\<close> and \<open>duration\<close> have the defaults \<open>'success'\<close> and
  \<open>3000\<close>, which JavaScript substitutes for an argument that is \<open>undefined\<close>
  (here \<open>None\<close>).
\<close>

record notification =
  nid :: real
  message :: string
  ntype :: string
  duration :: int

definition addNotification ::
  "real \<Rightarrow> string \<Rightarrow> string option \<Rightarrow> int option \<Rightarrow> notification list \<Rightarrow> notification list"
where
  "addNotification i msg ty dur prev =
     prev @ [\<lparr>nid = i, message = msg,
              ntype = (case ty of None \<Rightarrow> ''success'' | Some t \<Rightarrow> t),
              duration = (case dur of None \<Rightarrow> 3000 | Some d \<Rightarrow> d)\<rparr>]"

text \<open>
  \<^verbatim>\<open>setNotifications(prev => prev.filter(notification => notification.id !== id));\<close>
\<close>

definition removeNotification :: "real \<Rightarrow> notification list \<Rightarrow> notification list" where
  "removeNotification i prev = filter (\<lambda>n. nid n \<noteq> i) prev"

definition showSuccess :: "real \<Rightarrow> string \<Rightarrow> int option \<Rightarrow> notification list \<Rightarrow> notification list" where
  "showSuccess i msg dur = addNotification i msg (Some ''success'') dur"

definition showError :: "real \<Rightarrow> string \<Rightarrow> int option \<Rightarrow> notification list \<Rightarrow> notification list" where
  "showError i msg dur = addNotification i msg (Some ''error'') dur"

definition showWarning :: "real \<Rightarrow> string \<Rightarrow> int option \<Rightarrow> notification list \<Rightarrow> notification list" where
  "showWarning i msg dur = addNotification i msg (Some ''warning'') dur"

text \<open>
  The \<open>Notification\<close> component reaches \<open>removeNotification\<close> through its \<open>onClose\<close>
  property on two paths, both through \<open>handleClose\<close>: the timer started for
  \<open>duration\<close> milliseconds, and the close button. Each firing of \<open>handleClose\<close>
  schedules one call \<open>onClose()\<close>; the active set sees a sequence of such calls.
\<close>

datatype nevent = TimerExpired real | CloseClicked real

fun onClose :: "nevent \<Rightarrow> notification list \<Rightarrow> notification list" where
  "onClose (TimerExpired i) ns = removeNotification i ns"
| "onClose (CloseClicked i) ns = removeNotification i ns"

fun run_events :: "nevent list \<Rightarrow> notification list \<Rightarrow> notification list" where
  "run_events [] ns = ns"
| "run_events (e # es) ns = run_events es (onClose e ns)"


section \<open>Cart indicator (components/cart.jsx)\<close>

text \<open>
  \<^verbatim>\<open>const savedCart = localStorage.getItem("cart");
if (savedCart) {
    try {
        const parsedCart = JSON.parse(savedCart);
        setCart(Array.isArray(parsedCart) ? parsedCart : []);
    } catch (error) { console.error(...); setCart([]); }
} else { setCart([]); }\<close>

  The indicator's only state is its copy of the cart; the function returns it.
  A stored empty string is falsy and takes the \<open>else\<close> branch.
\<close>

definition array_or_empty :: "jsval \<Rightarrow> jsval list" where
  "array_or_empty parsedCart = (case parsedCart of JArray xs \<Rightarrow> xs | _ \<Rightarrow> [])"



section \<open>Checkout (components/checkout_input)\<close>

record checkout =
  cart :: "jsval list"
  fName :: string
  lName :: string
  adress :: string
  phone :: string
  building :: string
  apart :: string
  isLoading :: bool
  notifications :: "notification list"

type_synonym page = "browser \<times> checkout"

definition Checkout_showSuccess :: "string \<Rightarrow> int \<Rightarrow> page \<Rightarrow> page" where
  "Checkout_showSuccess msg dur pg =
     (case pg of (b, c) \<Rightarrow>
        (case fresh_id b of (i, b') \<Rightarrow>
           (b', c\<lparr>notifications := showSuccess i msg (Some dur) (notifications c)\<rparr>)))"

definition Checkout_showError :: "string \<Rightarrow> int \<Rightarrow> page \<Rightarrow> page" where
  "Checkout_showError msg dur pg =
     (case pg of (b, c) \<Rightarrow>
        (case fresh_id b of (i, b') \<Rightarrow>
           (b', c\<lparr>notifications := showError i msg (Some dur) (notifications c)\<rparr>)))"

definition Checkout_showWarning :: "string \<Rightarrow> int \<Rightarrow> page \<Rightarrow> page" where
  "Checkout_showWarning msg dur pg =
     (case pg of (b, c) \<Rightarrow>
        (case fresh_id b of (i, b') \<Rightarrow>
           (b', c\<lparr>notifications := showWarning i msg (Some dur) (notifications c)\<rparr>)))"

text \<open>
  \<open>loadCartFromStorage\<close> of the checkout: as in the indicator, and a parse failure
  also shows an error notification.
\<close>

definition loadCartFromStorage :: "page \<Rightarrow> page" where
  "loadCartFromStorage pg =
     (case pg of (b, c) \<Rightarrow>
        (case getItem ''cart'' b of
           None \<Rightarrow> (b, c\<lparr>cart := []\<rparr>)
         | Some savedCart \<Rightarrow>
             if savedCart = [] then (b, c\<lparr>cart := []\<rparr>)
             else (case JSON_parse savedCart of
                     Some parsedCart \<Rightarrow> (b, c\<lparr>cart := array_or_empty parsedCart\<rparr>)
                   | None \<Rightarrow>
                       Checkout_showError ''Error loading cart data. Cart has been reset.'' 3000
                         (b, c\<lparr>cart := []\<rparr>))))"

text \<open>
  \<open>window.dispatchEvent(new Event("cartUpdated"))\<close> on the checkout page, once the
  component is mounted: the event is recorded and the component's own listener
  \<open>handleCartUpdate\<close>, registered for that event, runs \<open>loadCartFromStorage\<close> before
  \<open>dispatchEvent\<close> returns. (The indicator's listener changes only the
  indicator's state.)
\<close>

definition dispatch_cartUpdated :: "page \<Rightarrow> page" where
  "dispatch_cartUpdated pg =
     (case pg of (b, c) \<Rightarrow>
        loadCartFromStorage (b\<lparr>effects := effects b @ [Dispatch ''cartUpdated'']\<rparr>, c))"

text \<open>
  \<^verbatim>\<open>const saveCartToStorage = (updatedCart) => {
  setCart(updatedCart);
  localStorage.setItem("cart", JSON.stringify(updatedCart));
  window.dispatchEvent(new Event("cartUpdated"));
};\<close>
\<close>

definition saveCartToStorage :: "jsval list \<Rightarrow> page \<Rightarrow> page" where
  "saveCartToStorage updatedCart pg =
     (case pg of (b, c) \<Rightarrow>
        dispatch_cartUpdated
          (setItem ''cart'' (stored_text (JArray updatedCart)) b, c\<lparr>cart := updatedCart\<rparr>))"

text \<open>
  The subtotal is computed on every render:
  \<^verbatim>\<open>let subtotal = 0;
for (let i = 0; i < cart.length; i++) {
  const price = Number(cart[i].price) || 0;
  const qty = cart[i].quantity || 1;
  subtotal += price * qty;
}\<close>
\<close>

definition line_price :: "jsval \<Rightarrow> jsnum" where
  "line_price p = (if truthy (JNumber (Number_js p)) then Number_js p else Num 0)"

definition line_qty :: "jsval \<Rightarrow> jsval" where
  "line_qty q = (if truthy q then q else JNumber (Num 1))"

definition line_total :: "jsval \<Rightarrow> error + jsnum" where
  "line_total line =
     (case get_prop line ''price'' of
        Inl e \<Rightarrow> Inl e
      | Inr p \<Rightarrow>
          (case get_prop line ''quantity'' of
             Inl e \<Rightarrow> Inl e
           | Inr q \<Rightarrow> Inr (js_mul (line_price p) (Number_js (line_qty q)))))"












subsection \<open>Order submission\<close>

text \<open>
  The phone pattern: an optional plus sign, then one or more characters that are
  digits, white space, hyphens or parentheses, up to the end of the string.
\<close>

definition phoneRegex_test :: "string \<Rightarrow> bool" where
  "phoneRegex_test s =
     (let r = (case s of c # cs \<Rightarrow> if c = CHR ''+'' then cs else s | [] \<Rightarrow> s)
      in r \<noteq> [] \<and>
         list_all (\<lambda>c. is_digit c \<or> is_space c \<or> c = CHR ''-'' \<or> c = CHR ''('' \<or> c = CHR '')'') r)"

datatype validation = Valid | InvalidError string | InvalidMissing "string list"

definition missing :: "string \<Rightarrow> string \<Rightarrow> string list" where
  "missing v label = (if trim v = [] then [label] else [])"

text \<open>
  \<open>validateCheckoutForm\<close> collects the blank fields, then checks in this order:
  the phone pattern (on a phone that is not blank), the empty cart, the blank fields.
\<close>

definition validateCheckoutForm :: "checkout \<Rightarrow> validation" where
  "validateCheckoutForm c =
     (let missingFields =
            missing (fName c) ''First Name'' @ missing (lName c) ''Last Name''
          @ missing (adress c) ''Address'' @ missing (phone c) ''Phone Number''
          @ missing (building c) ''Building Number'' @ missing (apart c) ''Apartment Number''
      in if trim (phone c) \<noteq> [] \<and> \<not> phoneRegex_test (phone c)
           then InvalidError ''Please enter a valid phone number''
         else if length (cart c) = 0
           then InvalidError ''Your cart is empty. Please add items before checkout.''
         else if length missingFields > 0 then InvalidMissing missingFields
         else Valid)"

text \<open>
  How the awaited \<open>axios.post\<close> ends: resolved with a status, or rejected with an
  error that carries a response, only a request, or neither.
\<close>

datatype outcome = Resolved nat | RejectedResponse nat | RejectedRequest | RejectedOther

datatype 'a step = Returned 'a | Awaiting 'a

text \<open>The call \<open>axios.post(.../order, {fName: fName.trim(), ..., cart})\<close>.\<close>

definition post_order :: "page \<Rightarrow> page" where
  "post_order pg =
     (case pg of (b, c) \<Rightarrow>
        (b\<lparr>effects := effects b @
             [PostOrder (trim (fName c)) (trim (lName c)) (trim (adress c))
                (trim (phone c)) (trim (building c)) (trim (apart c)) (cart c)]\<rparr>, c))"

text \<open>
  \<open>order\<close> up to its \<open>await\<close>: either it returns after reporting the validation
  failure, or it sets the loading flag, then sends the request and suspends.
\<close>

definition order_begin :: "page \<Rightarrow> page step" where
  "order_begin pg =
     (case pg of (b, c) \<Rightarrow>
        (case validateCheckoutForm c of
           InvalidMissing fs \<Rightarrow>
             Returned (Checkout_showWarning
               (''Please fill in the following required fields: '' @ join '', '' fs) 4000 pg)
         | InvalidError e \<Rightarrow>
             Returned (if e \<noteq> [] then Checkout_showError e 4000 pg else pg)
         | Valid \<Rightarrow> Awaiting (post_order (b, c\<lparr>isLoading := True\<rparr>))))"

definition party_popper :: string where
  "party_popper = [CHR 0xF0, CHR 0x9F, CHR 0x8E, CHR 0x89]"

text \<open>
  \<open>order\<close> from the point where the request has ended. The names in the success
  message are those of the render in which \<open>order\<close> was called (\<open>c0\<close>). The
  \<open>finally\<close> block clears the loading flag on every path.
\<close>

definition order_settle :: "checkout \<Rightarrow> outcome \<Rightarrow> page \<Rightarrow> page" where
  "order_settle c0 res pg =
     (case
        (case res of
           Resolved status \<Rightarrow>
             if status = 200 then
               (case pg of (b, c) \<Rightarrow>
                  Checkout_showSuccess
                    (party_popper @ '' Order placed successfully! Thank you '' @ trim (fName c0)
                       @ '' '' @ trim (lName c0)
                       @ ''! Your order will be processed and delivered soon.'') 6000
                    (dispatch_cartUpdated
                       (clear b,
                        c\<lparr>fName := [], lName := [], adress := [], phone := [],
                          building := [], apart := [], cart := []\<rparr>)))
             else Checkout_showError
                    ''There was a problem with the server. Please try again later.'' 4000 pg
         | RejectedResponse status \<Rightarrow>
             Checkout_showError
               (''Server error: '' @ show_nat status @ ''. Please try again later.'') 4000 pg
         | RejectedRequest \<Rightarrow>
             Checkout_showError
               ''Network error. Please check your internet connection and try again.'' 4000 pg
         | RejectedOther \<Rightarrow>
             Checkout_showError ''An unexpected error occurred. Please try again.'' 4000 pg)
      of (b, c) \<Rightarrow> (b, c\<lparr>isLoading := False\<rparr>))"

definition order :: "outcome \<Rightarrow> page \<Rightarrow> page" where
  "order res pg =
     (case order_begin pg of
        Returned r \<Rightarrow> r
      | Awaiting w \<Rightarrow> order_settle (snd pg) res w)"


section \<open>Contact form (components/contact_input.jsx)\<close>

record contact =
  name_c :: string
  email_c :: string
  phone_c :: string
  message_c :: string
  isLoading_c :: bool
  notifications_c :: "notification list"

type_synonym contact_page = "browser \<times> contact"

definition Contact_notify :: "string \<Rightarrow> string \<Rightarrow> int \<Rightarrow> contact_page \<Rightarrow> contact_page" where
  "Contact_notify ty msg dur pg =
     (case pg of (b, c) \<Rightarrow>
        (case fresh_id b of (i, b') \<Rightarrow>
           (b', c\<lparr>notifications_c :=
                    addNotification i msg (Some ty) (Some dur) (notifications_c c)\<rparr>)))"

text \<open>
  The e-mail pattern: one or more characters that are neither white space nor an
  at sign, an at sign, and then, to the end of the string, such characters again
  with a full stop somewhere strictly inside.
\<close>

definition emailRegex_test :: "string \<Rightarrow> bool" where
  "emailRegex_test s =
     (let ok = (\<lambda>c. \<not> is_space c \<and> c \<noteq> CHR ''@'');
          local = takeWhile ok s;
          rest = dropWhile ok s
      in local \<noteq> [] \<and>
         (case rest of
            [] \<Rightarrow> False
          | a # host \<Rightarrow>
              a = CHR ''@'' \<and> list_all ok host \<and>
              list_ex (\<lambda>i. host ! i = CHR ''.'') [1 ..< length host - 1]))"

definition validateForm :: "contact \<Rightarrow> validation" where
  "validateForm c =
     (let missingFields =
            missing (name_c c) ''Name'' @ missing (email_c c) ''Email''
          @ missing (phone_c c) ''Phone'' @ missing (message_c c) ''Message''
      in if trim (email_c c) \<noteq> [] \<and> \<not> emailRegex_test (email_c c)
           then InvalidError ''Please enter a valid email address''
         else if trim (phone_c c) \<noteq> [] \<and> \<not> phoneRegex_test (phone_c c)
           then InvalidError ''Please enter a valid phone number''
         else if length missingFields > 0 then InvalidMissing missingFields
         else Valid)"

definition post_contact :: "contact_page \<Rightarrow> contact_page" where
  "post_contact pg =
     (case pg of (b, c) \<Rightarrow>
        (b\<lparr>effects := effects b @
             [PostContact (trim (name_c c)) (trim (email_c c)) (trim (phone_c c))
                (trim (message_c c))]\<rparr>, c))"

definition addContact_begin :: "contact_page \<Rightarrow> contact_page step" where
  "addContact_begin pg =
     (case pg of (b, c) \<Rightarrow>
        (case validateForm c of
           InvalidMissing fs \<Rightarrow>
             Returned (Contact_notify ''warning''
               (''Please fill in the following required fields: '' @ join '', '' fs) 4000 pg)
         | InvalidError e \<Rightarrow>
             Returned (if e \<noteq> [] then Contact_notify ''error'' e 4000 pg else pg)
         | Valid \<Rightarrow> Awaiting (post_contact (b, c\<lparr>isLoading_c := True\<rparr>))))"

definition envelope :: string where
  "envelope = [CHR 0xF0, CHR 0x9F, CHR 0x93, CHR 0xA7]"

definition addContact_settle :: "contact \<Rightarrow> outcome \<Rightarrow> contact_page \<Rightarrow> contact_page" where
  "addContact_settle c0 res pg =
     (case
        (case res of
           Resolved status \<Rightarrow>
             if status = 200 then
               (case pg of (b, c) \<Rightarrow>
                  Contact_notify ''success''
                    (''Thank you '' @ trim (name_c c0)
                       @ ''! Your message has been sent successfully. We'' @ [CHR 0x27]
                       @ ''ll get back to you soon! '' @ envelope) 5000
                    (b, c\<lparr>name_c := [], email_c := [], phone_c := [], message_c := []\<rparr>))
             else Contact_notify ''error''
                    ''There was a problem with the server. Please try again later.'' 4000 pg
         | RejectedResponse status \<Rightarrow>
             Contact_notify ''error''
               (''Server error: '' @ show_nat status @ ''. Please try again later.'') 4000 pg
         | RejectedRequest \<Rightarrow>
             Contact_notify ''error''
               ''Network error. Please check your internet connection and try again.'' 4000 pg
         | RejectedOther \<Rightarrow>
             Contact_notify ''error'' ''An unexpected error occurred. Please try again.'' 4000 pg)
      of (b, c) \<Rightarrow> (b, c\<lparr>isLoading_c := False\<rparr>))"

definition addContact :: "outcome \<Rightarrow> contact_page \<Rightarrow> contact_page" where
  "addContact res pg =
     (case addContact_begin pg of
        Returned r \<Rightarrow> r
      | Awaiting w \<Rightarrow> addContact_settle (snd pg) res w)"


section \<open>Catalog (components/products.jsx)\<close>

record products =
  cart_p :: "jsval list"
  notifications_p :: "notification list"

type_synonym catalog_page = "browser \<times> products"

text \<open>
  The effect that runs once on mount. Unlike the other two readers it has no
  \<open>else\<close> branch: without a stored value the state keeps its initial \<open>[]\<close>.
\<close>

definition Products_mount :: "catalog_page \<Rightarrow> catalog_page" where
  "Products_mount pg =
     (case pg of (b, p) \<Rightarrow>
        (case getItem ''cart'' b of
           None \<Rightarrow> (b, p)
         | Some savedCart \<Rightarrow>
             if savedCart = [] then (b, p)
             else (case JSON_parse savedCart of
                     Some parsedCart \<Rightarrow> (b, p\<lparr>cart_p := array_or_empty parsedCart\<rparr>)
                   | None \<Rightarrow> (b, p\<lparr>cart_p := []\<rparr>))))"

text \<open>
  The effect that runs after every render in which \<open>cart\<close> has changed:
  \<^verbatim>\<open>useEffect(() => {
  if (cart.length > 0) {
    localStorage.setItem("cart", JSON.stringify(cart));
    window.dispatchEvent(new CustomEvent("cartUpdated"));
  }
}, [cart]);\<close>
  The catalog registers no listener for the event.
\<close>

definition Products_persist :: "catalog_page \<Rightarrow> catalog_page" where
  "Products_persist pg =
     (case pg of (b, p) \<Rightarrow>
        if length (cart_p p) > 0 then
          (let b1 = setItem ''cart'' (stored_text (JArray (cart_p p))) b
           in (b1\<lparr>effects := effects b1 @ [Dispatch ''cartUpdated'']\<rparr>, p))
        else (b, p))"





section \<open>Notions of the specification and sample data\<close>


definition quantity_field :: "jsval \<Rightarrow> jsval" where
  "quantity_field line = (case get_prop line ''quantity'' of Inr q \<Rightarrow> q | Inl e \<Rightarrow> JUndefined)"




definition is_object :: "jsval \<Rightarrow> bool" where
  "is_object v = (case v of JObject ps \<Rightarrow> True | _ \<Rightarrow> False)"


text \<open>
  The quantities that the checkout's own operations can leave in a line: none at all
  (a catalog entry), \<open>undefined\<close>, \<open>null\<close> or \<open>NaN\<close> (what a missing quantity
  turns into when it is incremented, decremented and stored), or an integer that is
  at least 1.
\<close>

definition quantity_ok :: "jsval \<Rightarrow> bool" where
  "quantity_ok line =
     (is_object line \<and>
      (case quantity_field line of
         JUndefined \<Rightarrow> True
       | JNull \<Rightarrow> True
       | JNumber NaN \<Rightarrow> True
       | JNumber (Num q) \<Rightarrow> 1 \<le> q
       | _ \<Rightarrow> False))"

definition empty_cart_message :: string where
  "empty_cart_message = ''Your cart is empty. Please add items before checkout.''"

definition phone_message :: string where
  "phone_message = ''Please enter a valid phone number''"

text \<open>The cart line of the specification's scenario, and a catalog entry as the
  catalog service supplies it (no quantity).\<close>

definition rose :: jsval where
  "rose = JObject [(''name'', JString ''Rose''), (''price'', JString ''100''),
                   (''quantity'', JNumber (Num 2))]"

definition jasmine :: jsval where
  "jasmine = JObject [(''name'', JString ''Jasmine''), (''price'', JNumber (Num 150)),
                      (''image1'', JString ''jasmine-1'')]"



definition fresh_browser :: browser where
  "fresh_browser = \<lparr>localStorage = Map.empty, effects = [], id_source = of_nat, ids_drawn = 0\<rparr>"

definition stale_browser :: browser where
  "stale_browser = fresh_browser\<lparr>localStorage := [''cart'' \<mapsto> ser (JArray [rose])]\<rparr>"




definition busy_browser :: browser where
  "busy_browser = fresh_browser\<lparr>localStorage :=
      [''cart'' \<mapsto> ser (JArray [rose]), ''theme'' \<mapsto> ''dark'']\<rparr>"

definition blank_checkout :: checkout where
  "blank_checkout = \<lparr>cart = [], fName = [], lName = [], adress = [], phone = [],
     building = [], apart = [], isLoading = False, notifications = []\<rparr>"

definition filled_checkout :: checkout where
  "filled_checkout = \<lparr>cart = [rose], fName = ''Mona'', lName = ''Said'', adress = ''12 Nile St'',
     phone = ''+20 100 555'', building = ''4'', apart = ''9'', isLoading = False,
     notifications = []\<rparr>"

definition filled_contact :: contact where
  "filled_contact = \<lparr>name_c = ''Mona'', email_c = ''mona@example.org'', phone_c = ''0100 555'',
     message_c = ''Hello'', isLoading_c = False, notifications_c = []\<rparr>"

definition blank_catalog :: products where
  "blank_catalog = \<lparr>cart_p = [], notifications_p = []\<rparr>"

definition note_a :: notification where
  "note_a = \<lparr>nid = 1, message = ''a'', ntype = ''info'', duration = 2000\<rparr>"



section \<open>The JSON reader inverts the writer\<close>

























lemma delimited_simps [simp]:
  "delimited []" "delimited (CHR '','' # t)" "delimited (CHR '']'' # t)" "delimited (CHR ''}'' # t)"
  by (simp_all add: delimited_def)

















subsection \<open>The counter never cuts a parse short\<close>


lemma skip_ws_length: "length (skip_ws s) \<le> length s"
  by (simp add: skip_ws_def length_dropWhile_le)

lemma skip_ws_Cons_length: "skip_ws s = c # cs \<Longrightarrow> length cs < length s"
  using skip_ws_length [of s] by simp

lemma cons_fst_Some: "cons_fst x r = Some (ys, rest) \<longleftrightarrow> (\<exists>xs. r = Some (xs, rest) \<and> ys = x # xs)"
  by (auto simp: cons_fst_def split: option.splits)

lemma app_fst_Some: "app_fst x r = Some (ys, rest) \<longleftrightarrow> (\<exists>xs. r = Some (xs, rest) \<and> ys = x @ xs)"
  by (auto simp: app_fst_def split: option.splits)

lemma lex_string_length: "lex_string s = Some (x, rest) \<Longrightarrow> length rest < length s"
proof (induction s arbitrary: x rest rule: lex_string.induct)
  case 1
  then show ?case by simp
next
  case (2 c cs)
  show ?case
  proof (cases "c = CHR 0x22")
    case True
    with 2 show ?thesis by simp
  next
    case q: False
    show ?thesis
    proof (cases "c = CHR 0x5C")
      case False
      with q 2 show ?thesis
        by (auto simp: cons_fst_Some split: if_splits)
    next
      case True
      with q 2 show ?thesis
        by (auto simp: cons_fst_Some app_fst_Some split: if_splits list.splits option.splits)
           fastforce+
    qed
  qed
qed

lemma lex_number_length: "lex_number s = Some (i, rest) \<Longrightarrow> length rest < length s"
proof -
  assume a: "lex_number s = Some (i, rest)"
  let ?neg = "(case s of c # _ \<Rightarrow> c = CHR ''-'' | [] \<Rightarrow> False)"
  let ?s1 = "if ?neg then tl s else s"
  from a have ds: "takeWhile is_digit ?s1 \<noteq> []" and r: "rest = dropWhile is_digit ?s1"
    by (auto simp: lex_number_def Let_def split: if_splits)
  have "length (takeWhile is_digit ?s1) + length (dropWhile is_digit ?s1) = length ?s1"
    by (metis length_append takeWhile_dropWhile_id)
  with ds r have "length rest < length ?s1" by (cases "takeWhile is_digit ?s1") auto
  then show ?thesis by (auto split: if_splits)
qed

lemma strip_prefix_length: "strip_prefix p s = Some rest \<Longrightarrow> length rest \<le> length s"
  by (auto simp: strip_prefix_def split: if_splits)


lemma fuel_step_value:
  assumes IH2: "\<And>s vs rest. parse_elements n s = Some (vs, rest) \<Longrightarrow>
            length rest < length s \<and> (\<forall>m. 2 * (length s - length rest) \<le> m \<longrightarrow>
              parse_elements m s = Some (vs, rest))"
    and IH3: "\<And>s ms rest. parse_members n s = Some (ms, rest) \<Longrightarrow>
            length rest < length s \<and> (\<forall>m. 2 * (length s - length rest) \<le> m \<longrightarrow>
              parse_members m s = Some (ms, rest))"
    and pv: "parse_value (Suc n) s = Some (v, rest)"
  shows "length rest < length s \<and> (\<forall>m. 2 * (length s - length rest) \<le> m \<longrightarrow>
              parse_value m s = Some (v, rest))"
proof -
  from pv obtain c cs where skip: "skip_ws s = c # cs"
    by (cases "skip_ws s") auto
  then have len: "length cs < length s" by (rule skip_ws_Cons_length)
  consider (arr) "c = CHR ''[''" | (obj) "c \<noteq> CHR ''[''" "c = CHR ''{''"
    | (leaf) "c \<noteq> CHR ''[''" "c \<noteq> CHR ''{''" by blast
  then show ?thesis
  proof cases
    case arr
    from pv skip arr obtain d ds where skip2: "skip_ws cs = d # ds"
      by (cases "skip_ws cs") auto
    then have len2: "length ds < length cs" by (rule skip_ws_Cons_length)
    show ?thesis
    proof (cases "d = CHR '']''")
      case True
      with pv skip arr skip2 have r: "rest = ds" "v = JArray []" by auto
      have "parse_value m s = Some (v, rest)" if "2 * (length s - length rest) \<le> m" for m
        using that r len len2 skip arr skip2 True by (cases m) auto
      with r len len2 show ?thesis by auto
    next
      case False
      with pv skip arr skip2 obtain vs where pe: "parse_elements n cs = Some (vs, rest)"
        and v: "v = JArray vs"
        by (auto split: option.splits)
      from IH2 [OF pe] have l: "length rest < length cs"
        and f: "\<And>m. 2 * (length cs - length rest) \<le> m \<Longrightarrow> parse_elements m cs = Some (vs, rest)"
        by auto
      have "parse_value m s = Some (v, rest)" if "2 * (length s - length rest) \<le> m" for m
      proof -
        from that l len obtain k where m: "m = Suc k" by (cases m) auto
        with that l len have "2 * (length cs - length rest) \<le> k" by simp
        from f [OF this] show ?thesis using m skip arr skip2 False v by simp
      qed
      with l len show ?thesis by auto
    qed
  next
    case obj
    from pv skip obj obtain d ds where skip2: "skip_ws cs = d # ds"
      by (cases "skip_ws cs") auto
    then have len2: "length ds < length cs" by (rule skip_ws_Cons_length)
    show ?thesis
    proof (cases "d = CHR ''}''")
      case True
      with pv skip obj skip2 have r: "rest = ds" "v = JObject []" by auto
      have "parse_value m s = Some (v, rest)" if "2 * (length s - length rest) \<le> m" for m
        using that r len len2 skip obj skip2 True by (cases m) auto
      with r len len2 show ?thesis by auto
    next
      case False
      with pv skip obj skip2 obtain ms where pm: "parse_members n cs = Some (ms, rest)"
        and v: "v = mk_object ms"
        by (auto split: option.splits)
      from IH3 [OF pm] have l: "length rest < length cs"
        and f: "\<And>m. 2 * (length cs - length rest) \<le> m \<Longrightarrow> parse_members m cs = Some (ms, rest)"
        by auto
      have "parse_value m s = Some (v, rest)" if "2 * (length s - length rest) \<le> m" for m
      proof -
        from that l len obtain k where m: "m = Suc k" by (cases m) auto
        with that l len have "2 * (length cs - length rest) \<le> k" by simp
        from f [OF this] show ?thesis using m skip obj skip2 False v by simp
      qed
      with l len show ?thesis by auto
    qed
  next
    case leaf
    have same: "parse_value (Suc k) s = parse_value (Suc n) s" for k
      using skip leaf by simp
    have l: "length rest \<le> length cs"
      using pv skip leaf
      by (auto split: if_splits option.splits
            dest: lex_string_length lex_number_length strip_prefix_length)
    have "parse_value m s = Some (v, rest)" if "2 * (length s - length rest) \<le> m" for m
    proof -
      from that l len obtain k where m: "m = Suc k" by (cases m) auto
      then show ?thesis using same [of k] pv by simp
    qed
    with l len show ?thesis by auto
  qed
qed


lemma fuel_step_elements:
  assumes IH1: "\<And>s v rest. parse_value n s = Some (v, rest) \<Longrightarrow>
            length rest < length s \<and> (\<forall>m. 2 * (length s - length rest) \<le> m \<longrightarrow>
              parse_value m s = Some (v, rest))"
    and IH2: "\<And>s vs rest. parse_elements n s = Some (vs, rest) \<Longrightarrow>
            length rest < length s \<and> (\<forall>m. 2 * (length s - length rest) \<le> m \<longrightarrow>
              parse_elements m s = Some (vs, rest))"
    and pe: "parse_elements (Suc n) s = Some (vs, rest)"
  shows "length rest < length s \<and> (\<forall>m. 2 * (length s - length rest) \<le> m \<longrightarrow>
              parse_elements m s = Some (vs, rest))"
proof -
  from pe obtain v r1 where pv: "parse_value n s = Some (v, r1)"
    by (auto split: option.splits)
  from IH1 [OF pv] have l1: "length r1 < length s"
    and f1: "\<And>m. 2 * (length s - length r1) \<le> m \<Longrightarrow> parse_value m s = Some (v, r1)"
    by auto
  from pe pv obtain c cs where skip: "skip_ws r1 = c # cs"
    by (cases "skip_ws r1") auto
  then have l2: "length cs < length r1" by (rule skip_ws_Cons_length)
  show ?thesis
  proof (cases "c = CHR '',''")
    case True
    with pe pv skip obtain ws where rec: "parse_elements n cs = Some (ws, rest)"
      and vs: "vs = v # ws"
      by (auto simp: cons_fst_Some)
    from IH2 [OF rec] have l3: "length rest < length cs"
      and f2: "\<And>m. 2 * (length cs - length rest) \<le> m \<Longrightarrow> parse_elements m cs = Some (ws, rest)"
      by auto
    have "parse_elements m s = Some (vs, rest)" if "2 * (length s - length rest) \<le> m" for m
    proof -
      from that l1 l2 l3 obtain k where m: "m = Suc k" by (cases m) auto
      with that l1 l2 l3 have "2 * (length s - length r1) \<le> k" "2 * (length cs - length rest) \<le> k"
        by simp_all
      from f1 [OF this(1)] f2 [OF this(2)] show ?thesis
        using m skip True vs by (simp add: cons_fst_def)
    qed
    with l1 l2 l3 show ?thesis by auto
  next
    case False
    with pe pv skip have c: "c = CHR '']''" and r: "rest = cs" "vs = [v]"
      by (auto split: if_splits)
    have "parse_elements m s = Some (vs, rest)" if "2 * (length s - length rest) \<le> m" for m
    proof -
      from that l1 l2 r obtain k where m: "m = Suc k" by (cases m) auto
      with that l1 l2 r have "2 * (length s - length r1) \<le> k" by simp
      from f1 [OF this] show ?thesis using m skip c r by simp
    qed
    with l1 l2 r show ?thesis by auto
  qed
qed

lemma fuel_step_members:
  assumes IH1: "\<And>s v rest. parse_value n s = Some (v, rest) \<Longrightarrow>
            length rest < length s \<and> (\<forall>m. 2 * (length s - length rest) \<le> m \<longrightarrow>
              parse_value m s = Some (v, rest))"
    and IH3: "\<And>s ms rest. parse_members n s = Some (ms, rest) \<Longrightarrow>
            length rest < length s \<and> (\<forall>m. 2 * (length s - length rest) \<le> m \<longrightarrow>
              parse_members m s = Some (ms, rest))"
    and pm: "parse_members (Suc n) s = Some (ms, rest)"
  shows "length rest < length s \<and> (\<forall>m. 2 * (length s - length rest) \<le> m \<longrightarrow>
              parse_members m s = Some (ms, rest))"
proof -
  from pm obtain q s1 where skip0: "skip_ws s = q # s1"
    by (cases "skip_ws s") auto
  then have l0: "length s1 < length s" by (rule skip_ws_Cons_length)
  from pm skip0 have q: "q = CHR 0x22" by (auto split: if_splits)
  from pm skip0 q obtain k s2 where ls: "lex_string s1 = Some (k, s2)"
    by (auto split: option.splits)
  then have l1: "length s2 < length s1" by (rule lex_string_length)
  from pm skip0 q ls obtain colon s3 where skip1: "skip_ws s2 = colon # s3"
    by (cases "skip_ws s2") auto
  then have l2: "length s3 < length s2" by (rule skip_ws_Cons_length)
  from pm skip0 q ls skip1 have colon: "colon = CHR '':''" by (auto split: if_splits)
  from pm skip0 q ls skip1 colon obtain v r1 where pv: "parse_value n s3 = Some (v, r1)"
    by (auto split: option.splits)
  from IH1 [OF pv] have l3: "length r1 < length s3"
    and f1: "\<And>m. 2 * (length s3 - length r1) \<le> m \<Longrightarrow> parse_value m s3 = Some (v, r1)"
    by auto
  from pm skip0 q ls skip1 colon pv obtain c cs where skip2: "skip_ws r1 = c # cs"
    by (cases "skip_ws r1") auto
  then have l4: "length cs < length r1" by (rule skip_ws_Cons_length)
  show ?thesis
  proof (cases "c = CHR '',''")
    case True
    with pm skip0 q ls skip1 colon pv skip2 obtain ws where rec: "parse_members n cs = Some (ws, rest)"
      and ms: "ms = (k, v) # ws"
      by (auto simp: cons_fst_Some)
    from IH3 [OF rec] have l5: "length rest < length cs"
      and f2: "\<And>m. 2 * (length cs - length rest) \<le> m \<Longrightarrow> parse_members m cs = Some (ws, rest)"
      by auto
    have "parse_members m s = Some (ms, rest)" if "2 * (length s - length rest) \<le> m" for m
    proof -
      from that l0 l1 l2 l3 l4 l5 obtain j where m: "m = Suc j" by (cases m) auto
      with that l0 l1 l2 l3 l4 l5
      have "2 * (length s3 - length r1) \<le> j" "2 * (length cs - length rest) \<le> j"
        by simp_all
      from f1 [OF this(1)] f2 [OF this(2)] show ?thesis
        using m skip0 q ls skip1 colon skip2 True ms by (simp add: cons_fst_def)
    qed
    with l0 l1 l2 l3 l4 l5 show ?thesis by auto
  next
    case False
    with pm skip0 q ls skip1 colon pv skip2 have c: "c = CHR ''}''" and r: "rest = cs" "ms = [(k, v)]"
      by (auto split: if_splits)
    have "parse_members m s = Some (ms, rest)" if "2 * (length s - length rest) \<le> m" for m
    proof -
      from that l0 l1 l2 l3 l4 r obtain j where m: "m = Suc j" by (cases m) auto
      with that l0 l1 l2 l3 l4 r have "2 * (length s3 - length r1) \<le> j" by simp
      from f1 [OF this] show ?thesis using m skip0 q ls skip1 colon skip2 c r by simp
    qed
    with l0 l1 l2 l3 l4 r show ?thesis by auto
  qed
qed

lemma fuel_all:
  "(\<forall>s v rest. parse_value n s = Some (v, rest) \<longrightarrow>
      length rest < length s \<and> (\<forall>m. 2 * (length s - length rest) \<le> m \<longrightarrow>
        parse_value m s = Some (v, rest)))
   \<and> (\<forall>s vs rest. parse_elements n s = Some (vs, rest) \<longrightarrow>
      length rest < length s \<and> (\<forall>m. 2 * (length s - length rest) \<le> m \<longrightarrow>
        parse_elements m s = Some (vs, rest)))
   \<and> (\<forall>s ms rest. parse_members n s = Some (ms, rest) \<longrightarrow>
      length rest < length s \<and> (\<forall>m. 2 * (length s - length rest) \<le> m \<longrightarrow>
        parse_members m s = Some (ms, rest)))"
proof (induction n)
  case 0
  show ?case by simp
next
  case (Suc n)
  then have IH1: "\<And>s v rest. parse_value n s = Some (v, rest) \<Longrightarrow>
            length rest < length s \<and> (\<forall>m. 2 * (length s - length rest) \<le> m \<longrightarrow>
              parse_value m s = Some (v, rest))"
    and IH2: "\<And>s vs rest. parse_elements n s = Some (vs, rest) \<Longrightarrow>
            length rest < length s \<and> (\<forall>m. 2 * (length s - length rest) \<le> m \<longrightarrow>
              parse_elements m s = Some (vs, rest))"
    and IH3: "\<And>s ms rest. parse_members n s = Some (ms, rest) \<Longrightarrow>
            length rest < length s \<and> (\<forall>m. 2 * (length s - length rest) \<le> m \<longrightarrow>
              parse_members m s = Some (ms, rest))"
    by blast+
  show ?case
    using fuel_step_value [OF IH2 IH3] fuel_step_elements [OF IH1 IH2]
      fuel_step_members [OF IH1 IH3]
    by blast
qed

lemma JSON_parse_fuel:
  "JSON_parse s = Some v \<longleftrightarrow> (\<exists>n rest. parse_value n s = Some (v, rest) \<and> skip_ws rest = [])"
proof
  assume "JSON_parse s = Some v"
  then show "\<exists>n rest. parse_value n s = Some (v, rest) \<and> skip_ws rest = []"
    unfolding JSON_parse_def
    by (cases "parse_value (2 * length s + 2) s")
       (auto split: if_splits simp del: parse_value.simps intro: exI [of _ "2 * length s + 2"])
next
  assume "\<exists>n rest. parse_value n s = Some (v, rest) \<and> skip_ws rest = []"
  then obtain n rest where p: "parse_value n s = Some (v, rest)" and e: "skip_ws rest = []"
    by blast
  from fuel_all [of n] p
  have f: "\<And>m. 2 * (length s - length rest) \<le> m \<Longrightarrow> parse_value m s = Some (v, rest)"
    by blast
  have "2 * (length s - length rest) \<le> 2 * length s + 2" by simp
  from f [OF this] e show "JSON_parse s = Some v"
    by (simp add: JSON_parse_def del: parse_value.simps)
qed


section \<open>Auxiliary facts about the components\<close>

lemma loadCartFromStorage_browser:
  "localStorage (fst (loadCartFromStorage (b, c))) = localStorage b
   \<and> effects (fst (loadCartFromStorage (b, c))) = effects b"
  by (simp add: loadCartFromStorage_def Checkout_showError_def fresh_id_def getItem_def
        split: option.splits)

lemma saveCartToStorage_browser:
  "localStorage (fst (saveCartToStorage crt (b, c))) = (localStorage b)(''cart'' \<mapsto> ser (JArray crt))
   \<and> effects (fst (saveCartToStorage crt (b, c)))
       = effects b @ [SetItem ''cart'' (ser (JArray crt)), Dispatch ''cartUpdated'']"
  using loadCartFromStorage_browser
  by (simp add: saveCartToStorage_def dispatch_cartUpdated_def setItem_def stored_text_def
        JSON_stringify_def)

lemma Products_persist_nonempty:
  "cart_p p \<noteq> [] \<Longrightarrow>
   Products_persist (b, p) =
     (b\<lparr>localStorage := (localStorage b)(''cart'' \<mapsto> ser (JArray (cart_p p))),
        effects := effects b @ [SetItem ''cart'' (ser (JArray (cart_p p))), Dispatch ''cartUpdated'']\<rparr>, p)"
  by (simp add: Products_persist_def setItem_def stored_text_def JSON_stringify_def Let_def)






subsection \<open>The subtotal loop\<close>












lemma line_total_object: "is_object line \<Longrightarrow> \<exists>n. line_total line = Inr n"
  by (auto simp: is_object_def line_total_def split: jsval.splits)






subsection \<open>Removing and updating a line\<close>
































lemma quantity_ok_jasmine: "quantity_ok jasmine"
  by (simp add: quantity_ok_def is_object_def quantity_field_def jasmine_def)

subsection \<open>Submitting the forms\<close>

lemma order_settle_releases: "\<not> isLoading (snd (order_settle c0 res pg))"
  by (simp add: order_settle_def split: prod.splits)

lemma addContact_settle_releases: "\<not> isLoading_c (snd (addContact_settle c0 res pg))"
  by (simp add: addContact_settle_def split: prod.splits)

lemma order_begin_valid:
  "validateCheckoutForm c = Valid \<Longrightarrow>
   order_begin (b, c) = Awaiting (post_order (b, c\<lparr>isLoading := True\<rparr>))"
  by (simp add: order_begin_def)

lemma post_order_flag:
  "isLoading (snd (post_order (b, c))) = isLoading c
   \<and> effects (fst (post_order (b, c))) = effects b @
         [PostOrder (trim (fName c)) (trim (lName c)) (trim (adress c))
            (trim (phone c)) (trim (building c)) (trim (apart c)) (cart c)]
   \<and> localStorage (fst (post_order (b, c))) = localStorage b"
  by (simp add: post_order_def)

lemma addContact_begin_valid:
  "validateForm k = Valid \<Longrightarrow>
   addContact_begin (b, k) = Awaiting (post_contact (b, k\<lparr>isLoading_c := True\<rparr>))"
  by (simp add: addContact_begin_def)

lemma post_contact_flag:
  "isLoading_c (snd (post_contact (b, k))) = isLoading_c k
   \<and> effects (fst (post_contact (b, k))) = effects b @
         [PostContact (trim (name_c k)) (trim (email_c k)) (trim (phone_c k))
            (trim (message_c k))]"
  by (simp add: post_contact_def)

lemma filled_checkout_valid: "validateCheckoutForm filled_checkout = Valid"
  by code_simp

lemma filled_contact_valid: "validateForm filled_contact = Valid"
  by code_simp

lemma validate_empty_cart:
  "cart c = [] \<Longrightarrow>
   validateCheckoutForm c =
     InvalidError (if trim (phone c) \<noteq> [] \<and> \<not> phoneRegex_test (phone c)
                   then phone_message else empty_cart_message)"
  by (simp add: validateCheckoutForm_def Let_def phone_message_def empty_cart_message_def)

subsection \<open>Removing notifications\<close>

lemma removeNotification_absent:
  "i \<notin> nid ` set ns \<Longrightarrow> removeNotification i ns = ns"
  unfolding removeNotification_def by (induction ns) auto

lemma removeNotification_twice:
  "removeNotification i (removeNotification i ns) = removeNotification i ns"
  unfolding removeNotification_def by simp

lemma removeNotification_add_fresh:
  "i \<notin> nid ` set ns \<Longrightarrow> removeNotification i (addNotification i m t d ns) = ns"
  using removeNotification_absent [of i ns]
  unfolding removeNotification_def addNotification_def by simp


section \<open>The claims\<close>

subsection \<open>C1: writing the cart persists and broadcasts\<close>

text \<open>
  Claim C1, as stated, fails on the catalog: with an empty cart its persist-on-change
  effect is guarded by \<open>cart.length > 0\<close> and does nothing. Here the storage holds
  an earlier cart with one line and the catalog's cart is empty: after the effect
  the stored text is still that of the earlier cart, not that of the empty cart, and
  no storage write and no event has happened.
\<close>

theorem catalog_skips_empty_cart:
  "getItem ''cart'' (fst (Products_persist (stale_browser, blank_catalog)))
     = Some (ser (JArray [rose]))
   \<and> ser (JArray [rose]) \<noteq> ser (JArray (cart_p blank_catalog))
   \<and> effects (fst (Products_persist (stale_browser, blank_catalog))) = []"
  by (simp add: Products_persist_def blank_catalog_def stale_browser_def fresh_browser_def
        getItem_def rose_def quote_def)

text \<open>
  Claim C1, amended. For every cart, the empty one included, \<open>saveCartToStorage\<close>
  of the checkout stores the serialized cart under the key \<open>cart\<close> and then
  dispatches \<open>cartUpdated\<close>: these are the two effects it adds, in this order. The
  catalog's persist-on-change effect does the same for every cart that is not empty;
  for the empty cart it leaves the storage and the event channel as they are.
\<close>

theorem write_persists_and_broadcasts:
  "localStorage (fst (saveCartToStorage crt (b, c))) ''cart'' = Some (ser (JArray crt))
   \<and> effects (fst (saveCartToStorage crt (b, c)))
       = effects b @ [SetItem ''cart'' (ser (JArray crt)), Dispatch ''cartUpdated'']
   \<and> (cart_p p \<noteq> [] \<longrightarrow>
        localStorage (fst (Products_persist (b, p))) ''cart'' = Some (ser (JArray (cart_p p)))
        \<and> effects (fst (Products_persist (b, p)))
            = effects b @ [SetItem ''cart'' (ser (JArray (cart_p p))), Dispatch ''cartUpdated''])
   \<and> (cart_p p = [] \<longrightarrow> Products_persist (b, p) = (b, p))"
proof -
  have "cart_p p = [] \<Longrightarrow> Products_persist (b, p) = (b, p)"
    by (simp add: Products_persist_def)
  then show ?thesis
    using saveCartToStorage_browser [of crt b c] Products_persist_nonempty [of p b]
    by simp
qed

theorem write_persists_and_broadcasts_witness:
  "cart_p (blank_catalog\<lparr>cart_p := [rose]\<rparr>) \<noteq> []
   \<and> cart_p blank_catalog = []
   \<and> effects (fst (Products_persist (fresh_browser, blank_catalog\<lparr>cart_p := [rose]\<rparr>)))
       = [SetItem ''cart'' (ser (JArray [rose])), Dispatch ''cartUpdated'']
   \<and> Products_persist (fresh_browser, blank_catalog) = (fresh_browser, blank_catalog)
   \<and> localStorage (fst (saveCartToStorage [] (stale_browser, blank_checkout))) ''cart'' = Some ''[]''"
proof -
  have h1: "cart_p (blank_catalog\<lparr>cart_p := [rose]\<rparr>) \<noteq> []" by simp
  have h2: "cart_p blank_catalog = []" by (simp add: blank_catalog_def)
  have e: "effects fresh_browser = []" by (simp add: fresh_browser_def)
  have s: "ser (JArray []) = ''[]''" by simp
  from write_persists_and_broadcasts
         [of "[]" stale_browser blank_checkout "blank_catalog\<lparr>cart_p := [rose]\<rparr>"]
       write_persists_and_broadcasts
         [of "[]" fresh_browser blank_checkout "blank_catalog\<lparr>cart_p := [rose]\<rparr>"]
       write_persists_and_broadcasts [of "[]" fresh_browser blank_checkout blank_catalog]
       h1 h2 e s
  show ?thesis by simp
qed


subsection \<open>C2: decreasing the last unit removes the line\<close>




subsection \<open>C3: reading the stored cart\<close>





subsection \<open>C4: subtotal and total\<close>




subsection \<open>C5: removing a notification is idempotent\<close>

text \<open>
  Claim C5. Removing an identifier keeps, in their order, exactly the notifications
  that do not bear it; removing an identifier that no active notification bears
  changes nothing; removing twice is removing once. So a notification enqueued
  under an identifier not yet in use is gone after its timer expires, and a second
  removal for the same identifier (close button and timer in either order) leaves
  the active set, and its size, as the first removal left it.
\<close>

theorem removeNotification_idempotent:
  "set (removeNotification i ns) = {n \<in> set ns. nid n \<noteq> i}
   \<and> removeNotification i ns = filter (\<lambda>n. nid n \<noteq> i) ns
   \<and> (i \<notin> nid ` set ns \<longrightarrow> removeNotification i ns = ns)
   \<and> removeNotification i (removeNotification i ns) = removeNotification i ns
   \<and> (i \<notin> nid ` set ns \<longrightarrow>
        run_events [TimerExpired i] (addNotification i m t d ns) = ns
      \<and> run_events [CloseClicked i, TimerExpired i] (addNotification i m t d ns) = ns
      \<and> run_events [TimerExpired i, CloseClicked i] (addNotification i m t d ns) = ns
      \<and> length (run_events [CloseClicked i, TimerExpired i] (addNotification i m t d ns))
          = length (run_events [CloseClicked i] (addNotification i m t d ns)))"
proof -
  have a: "set (removeNotification i ns) = {n \<in> set ns. nid n \<noteq> i}"
    unfolding removeNotification_def by auto
  have b: "removeNotification i ns = filter (\<lambda>n. nid n \<noteq> i) ns"
    by (simp add: removeNotification_def)
  show ?thesis
    using a b removeNotification_absent [of i ns] removeNotification_twice [of i ns]
      removeNotification_add_fresh [of i ns m t d]
    by simp
qed

theorem removeNotification_idempotent_witness:
  "2 \<notin> nid ` set [note_a]
   \<and> run_events [CloseClicked 2, TimerExpired 2] (addNotification 2 ''b'' None None [note_a])
       = [note_a]
   \<and> length (run_events [CloseClicked 2, TimerExpired 2]
        (addNotification 2 ''b'' None None [note_a])) = 1"
proof -
  have h: "2 \<notin> nid ` set [note_a]" by (simp add: note_a_def)
  from removeNotification_idempotent [of 2 "[note_a]" "''b''" None None] h
  have "run_events [CloseClicked 2, TimerExpired 2] (addNotification 2 ''b'' None None [note_a])
          = [note_a]"
    by blast
  with h show ?thesis by simp
qed


subsection \<open>C6: the submission guard is released\<close>

text \<open>
  Claim C6. When the checkout form passes validation, \<open>order\<close> sets the loading
  flag and then sends the request: it suspends in the state that results from
  posting with the flag set, so the flag is held while the request is pending.
  Whichever way the request ends (status 200, another status, an error with a
  response, an error with only a request, any other error), the flag is clear when
  \<open>order\<close> has finished; the part of \<open>order\<close> after the \<open>await\<close> clears it
  from any state. The same holds for \<open>addContact\<close> of the contact form.
\<close>

theorem submission_guard_released:
  "(validateCheckoutForm c = Valid \<longrightarrow>
      order_begin (b, c) = Awaiting (post_order (b, c\<lparr>isLoading := True\<rparr>))
      \<and> isLoading (snd (post_order (b, c\<lparr>isLoading := True\<rparr>)))
      \<and> effects (fst (post_order (b, c\<lparr>isLoading := True\<rparr>))) = effects b @
            [PostOrder (trim (fName c)) (trim (lName c)) (trim (adress c))
               (trim (phone c)) (trim (building c)) (trim (apart c)) (cart c)]
      \<and> \<not> isLoading (snd (order res (b, c))))
   \<and> \<not> isLoading (snd (order_settle c0 res pg))
   \<and> (validateForm k = Valid \<longrightarrow>
      addContact_begin (b, k) = Awaiting (post_contact (b, k\<lparr>isLoading_c := True\<rparr>))
      \<and> isLoading_c (snd (post_contact (b, k\<lparr>isLoading_c := True\<rparr>)))
      \<and> effects (fst (post_contact (b, k\<lparr>isLoading_c := True\<rparr>))) = effects b @
            [PostContact (trim (name_c k)) (trim (email_c k)) (trim (phone_c k))
               (trim (message_c k))]
      \<and> \<not> isLoading_c (snd (addContact res (b, k))))
   \<and> \<not> isLoading_c (snd (addContact_settle k0 res kpg))"
  using order_settle_releases addContact_settle_releases
    post_order_flag [of b "c\<lparr>isLoading := True\<rparr>"]
    post_contact_flag [of b "k\<lparr>isLoading_c := True\<rparr>"]
  by (simp add: order_begin_valid addContact_begin_valid order_def addContact_def)

theorem submission_guard_released_witness:
  "validateCheckoutForm filled_checkout = Valid
   \<and> validateForm filled_contact = Valid
   \<and> \<not> isLoading (snd (order RejectedRequest (fresh_browser, filled_checkout)))
   \<and> \<not> isLoading (snd (order (Resolved 200) (fresh_browser, filled_checkout)))
   \<and> \<not> isLoading_c (snd (addContact (RejectedResponse 500) (fresh_browser, filled_contact)))"
  using submission_guard_released [where c = filled_checkout and k = filled_contact
          and b = fresh_browser and res = RejectedRequest]
        submission_guard_released [where c = filled_checkout and k = filled_contact
          and b = fresh_browser and res = "Resolved 200"]
        submission_guard_released [where c = filled_checkout and k = filled_contact
          and b = fresh_browser and res = "RejectedResponse 500"]
        filled_checkout_valid filled_contact_valid
  by simp


subsection \<open>C7: checkout with an empty cart\<close>

text \<open>
  Claim C7, as stated, fails: \<open>validateCheckoutForm\<close> tests the phone pattern
  before it tests for the empty cart. With an empty cart and the phone field
  \<open>call me\<close>, the one notification shown is the one about the phone number, not the
  empty-cart message.
\<close>

theorem empty_cart_wrong_message:
  "cart (filled_checkout\<lparr>cart := [], phone := ''call me''\<rparr>) = []
   \<and> map message (notifications (snd (order (Resolved 200)
         (fresh_browser, filled_checkout\<lparr>cart := [], phone := ''call me''\<rparr>))))
       = [''Please enter a valid phone number'']
   \<and> ''Please enter a valid phone number'' \<noteq> empty_cart_message"
  by code_simp

text \<open>
  Claim C7, amended. Every submission with an empty cart ends before any remote
  call with exactly one new notification of kind \<open>error\<close>: the empty-cart message
  when the phone field is blank or matches the phone pattern, the message about the
  phone number otherwise. Nothing else changes: the effects (so no request), the
  storage, the cart, the form fields and the loading flag are as before.
\<close>

theorem empty_cart_rejected:
  "cart c = [] \<Longrightarrow>
     order res (b, c) =
       (b\<lparr>ids_drawn := Suc (ids_drawn b)\<rparr>,
        c\<lparr>notifications := notifications c @
             [\<lparr>nid = id_source b (ids_drawn b),
               message = (if trim (phone c) \<noteq> [] \<and> \<not> phoneRegex_test (phone c)
                          then phone_message else empty_cart_message),
               ntype = ''error'', duration = 4000\<rparr>]\<rparr>)
   \<and> effects (fst (order res (b, c))) = effects b
   \<and> localStorage (fst (order res (b, c))) = localStorage b
   \<and> cart (snd (order res (b, c))) = cart c
   \<and> isLoading (snd (order res (b, c))) = isLoading c"
proof -
  assume e: "cart c = []"
  have ne: "(if trim (phone c) \<noteq> [] \<and> \<not> phoneRegex_test (phone c)
             then phone_message else empty_cart_message) \<noteq> []"
    by (simp add: phone_message_def empty_cart_message_def)
  have "order res (b, c) =
       (b\<lparr>ids_drawn := Suc (ids_drawn b)\<rparr>,
        c\<lparr>notifications := notifications c @
             [\<lparr>nid = id_source b (ids_drawn b),
               message = (if trim (phone c) \<noteq> [] \<and> \<not> phoneRegex_test (phone c)
                          then phone_message else empty_cart_message),
               ntype = ''error'', duration = 4000\<rparr>]\<rparr>)"
    using ne
    by (simp add: order_def order_begin_def validate_empty_cart [OF e] Checkout_showError_def
          fresh_id_def showError_def addNotification_def)
  then show ?thesis by simp
qed

theorem empty_cart_rejected_witness:
  "cart (filled_checkout\<lparr>cart := []\<rparr>) = []
   \<and> map message (notifications (snd (order (Resolved 200)
         (fresh_browser, filled_checkout\<lparr>cart := []\<rparr>)))) = [empty_cart_message]
   \<and> effects (fst (order (Resolved 200) (fresh_browser, filled_checkout\<lparr>cart := []\<rparr>))) = []"
proof -
  let ?c = "filled_checkout\<lparr>cart := []\<rparr>"
  have h: "cart ?c = []" by simp
  have p: "phoneRegex_test (phone ?c)" by code_simp
  have n: "notifications ?c = []" by (simp add: filled_checkout_def)
  have f: "effects fresh_browser = []" by (simp add: fresh_browser_def)
  from empty_cart_rejected [OF h, of "Resolved 200" fresh_browser] p n f
  show ?thesis by simp
qed


subsection \<open>C8: writing and reading back\<close>




subsection \<open>C9: a line without quantity counts once\<close>




subsection \<open>C10: a successful order clears the whole storage\<close>

text \<open>
  Claim C10. When the form passes validation and the request is answered with
  status 200, \<open>order\<close> empties the whole storage with \<open>localStorage.clear()\<close>:
  afterwards no key has a value, not only the key \<open>cart\<close>. After the clearing it
  dispatches \<open>cartUpdated\<close>; the cart of the checkout is empty and the loading flag
  is clear.
\<close>

theorem order_success_clears_storage:
  "validateCheckoutForm c = Valid \<Longrightarrow>
     localStorage (fst (order (Resolved 200) (b, c))) = Map.empty
   \<and> (\<forall>key. getItem key (fst (order (Resolved 200) (b, c))) = None)
   \<and> cart (snd (order (Resolved 200) (b, c))) = []
   \<and> effects (fst (order (Resolved 200) (b, c))) = effects b @
         [PostOrder (trim (fName c)) (trim (lName c)) (trim (adress c))
            (trim (phone c)) (trim (building c)) (trim (apart c)) (cart c),
          Clear, Dispatch ''cartUpdated'']
   \<and> \<not> isLoading (snd (order (Resolved 200) (b, c)))"
  by (simp add: order_def order_begin_valid post_order_def order_settle_def clear_def
        dispatch_cartUpdated_def loadCartFromStorage_def getItem_def Checkout_showSuccess_def
        fresh_id_def)

theorem order_success_clears_storage_witness:
  "validateCheckoutForm filled_checkout = Valid
   \<and> getItem ''theme'' busy_browser = Some ''dark''
   \<and> getItem ''theme'' (fst (order (Resolved 200) (busy_browser, filled_checkout))) = None
   \<and> getItem ''cart'' (fst (order (Resolved 200) (busy_browser, filled_checkout))) = None
   \<and> cart (snd (order (Resolved 200) (busy_browser, filled_checkout))) = []"
  using order_success_clears_storage [OF filled_checkout_valid, of busy_browser]
    filled_checkout_valid
  by (simp add: busy_browser_def getItem_def fresh_browser_def del: ser.simps)

end
